theory Spec2Isabelle
  imports Complex_Main
begin

section \<open>Stock management: persistence, capacity accounting and retryable fetch\<close>

text \<open>
  A shallow embedding of \<^verbatim>\<open>docs/assets/js/app.js\<close>. JavaScript strings are modelled
  as \<^typ>\<open>string\<close>, one \<^typ>\<open>char\<close> per code unit, so \<^const>\<open>length\<close> is the
  source's \<^verbatim>\<open>.length\<close>. JavaScript numbers that hold counts and quantities are modelled
  as unbounded integers; the percentage of the capacity monitor is an exact rational
  (the bytes used are an even integer, and at and around the thresholds 70, 85 and 90 the
  comparison on doubles decides as the exact one does).
  The browser (fetch, localStorage, the DOM, the clock) is the environment: what it
  answers is an argument of the function that asks, and what the program shows to the
  user is appended to a log of events.
\<close>

subsection \<open>Constants\<close>

definition MAX_LOCALSTORAGE_SIZE :: nat where
  "MAX_LOCALSTORAGE_SIZE = 5 * 1024 * 1024"

definition STORAGE_KEY :: string where
  "STORAGE_KEY = ''stockInventory''"

definition MAX_RETRIES :: int where
  "MAX_RETRIES = 3"

subsection \<open>Template literals: numbers as decimal text\<close>

fun show_nat :: "nat \<Rightarrow> string" where
  "show_nat n =
     (if n < 10 then [''0123456789'' ! n]
      else show_nat (n div 10) @ [''0123456789'' ! (n mod 10)])"

declare show_nat.simps [simp del]

definition show_int :: "int \<Rightarrow> string" where
  "show_int i = (if i < 0 then ''-'' @ show_nat (nat (- i)) else show_nat (nat i))"

subsection \<open>Fetch with retry\<close>

text \<open>
  One call of \<^verbatim>\<open>fetch(url, options)\<close> either rejects with an error (of which the
  loop reads the message only) or resolves to a response. The endpoint is the
  environment's answer to the attempt with a given index.
\<close>

record response =
  ok :: bool
  status :: nat
  body :: string

datatype fetch_outcome = Rejects string | Resolves response

text \<open>
  The body of the \<^verbatim>\<open>try\<close> block: a response that is not ok is thrown as an error,
  \<open>Inl\<close> carries the message of whatever was thrown.
\<close>

definition attempt_fetch :: "fetch_outcome \<Rightarrow> string + response" where
  "attempt_fetch out =
     (case out of
        Rejects msg \<Rightarrow> Inl msg
      | Resolves r \<Rightarrow>
          if \<not> ok r then Inl (''HTTP error! Status: '' @ show_nat (status r)) else Inr r)"

text \<open>What a call does, in order: the requests, the console warnings and the waits (ms).\<close>

datatype fetch_event = FetchCall nat | ConsoleWarn string | Sleep nat

definition backoff_delay :: "nat \<Rightarrow> nat" where
  "backoff_delay attempt = min (2 ^ attempt * 100) 2000"

text \<open>
  The \<^verbatim>\<open>for\<close> loop from the iteration with index \<open>attempt\<close> on. The result is what the
  call returns (\<open>Inr\<close>) or the message of the error it throws (\<open>Inl\<close>), with the
  events of these iterations. \<open>lastError\<close> is \<open>None\<close> for \<^verbatim>\<open>null\<close> and otherwise the
  message of the error caught last.
\<close>

function fetchLoop ::
  "(nat \<Rightarrow> fetch_outcome) \<Rightarrow> int \<Rightarrow> nat \<Rightarrow> string option \<Rightarrow> (string + response) \<times> fetch_event list"
where
  "fetchLoop endpoint maxRetries attempt lastError =
     (if int attempt < maxRetries then
        (case attempt_fetch (endpoint attempt) of
           Inr r \<Rightarrow> (Inr r, [FetchCall attempt])
         | Inl msg \<Rightarrow>
             (let delay = backoff_delay attempt;
                  (res, evs) = fetchLoop endpoint maxRetries (attempt + 1) (Some msg)
              in (res,
                  [FetchCall attempt,
                   ConsoleWarn (''Attempt '' @ show_nat (attempt + 1) @ '' failed: '' @ msg),
                   Sleep delay] @ evs)))
      else
        (Inl (''Failed after '' @ show_int maxRetries @ '' attempts: '' @
              (case lastError of Some msg \<Rightarrow> msg | None \<Rightarrow> ''Unknown error'')),
         []))"
  by pat_completeness auto
termination
  by (relation "measure (\<lambda>(endpoint, maxRetries, attempt, lastError). nat (maxRetries - int attempt))") auto

declare fetchLoop.simps [simp del]

definition fetchWithRetry ::
  "(nat \<Rightarrow> fetch_outcome) \<Rightarrow> int \<Rightarrow> (string + response) \<times> fetch_event list" where
  "fetchWithRetry endpoint maxRetries = fetchLoop endpoint maxRetries 0 None"

subsection \<open>Items, the application state and what the user is shown\<close>

text \<open>
  An item as the add form creates it. The fields \<^verbatim>\<open>id\<close> and \<^verbatim>\<open>image\<close> of the source are
  \<open>item_id\<close> and \<open>item_image\<close> here; \<^verbatim>\<open>image: null\<close> is \<open>None\<close>.
\<close>

record item =
  item_id :: string
  name :: string
  quantity :: int
  item_image :: "string option"
  createdAt :: string

record storage_info =
  used :: nat
  quota :: nat
  percentage :: rat

text \<open>An error object, as far as the program reads it: its name, its code, its message.\<close>

record js_error =
  err_name :: string
  err_code :: "nat option"
  err_message :: string

text \<open>
  The calls into the UI glue and the console, in the order the program makes them.
  Timers that only restyle the page later are not part of the log.
\<close>

datatype ui_event =
    StorageStatus bool "string option"
  | Toast string string
  | ConsoleError string string
  | InventoryDisplay "item list"
  | StorageInfoHidden
  | StorageInfoShown storage_info string
  | QuantityShown string int
  | ZeroHighlight string
  | ConfirmModal string string
  | LoadingShown
  | LoadingHidden
  | FormReset

text \<open>
  The module's variables \<^verbatim>\<open>inventory\<close> and \<^verbatim>\<open>storageAvailable\<close>, the browser's
  localStorage as the list of its entries (entry \<open>i\<close> is the key \<^verbatim>\<open>localStorage.key(i)\<close>
  with the value \<^verbatim>\<open>localStorage.getItem\<close> gives for it), and the log.
\<close>

record app_state =
  inventory :: "item list"
  storageAvailable :: bool
  localStorage :: "(string \<times> string) list"
  ui :: "ui_event list"

definition showToast :: "string \<Rightarrow> string \<Rightarrow> app_state \<Rightarrow> app_state" where
  "showToast message type s = s\<lparr>ui := ui s @ [Toast message type]\<rparr>"

definition showStorageStatus :: "bool \<Rightarrow> string option \<Rightarrow> app_state \<Rightarrow> app_state" where
  "showStorageStatus isAvailable message s = s\<lparr>ui := ui s @ [StorageStatus isAvailable message]\<rparr>"

definition console_error :: "string \<Rightarrow> string \<Rightarrow> app_state \<Rightarrow> app_state" where
  "console_error label message s = s\<lparr>ui := ui s @ [ConsoleError label message]\<rparr>"

definition updateInventoryDisplay :: "app_state \<Rightarrow> app_state" where
  "updateInventoryDisplay s = s\<lparr>ui := ui s @ [InventoryDisplay (inventory s)]\<rparr>"

subsection \<open>Capacity monitor\<close>

definition getStorageInfo :: "app_state \<Rightarrow> storage_info" where
  "getStorageInfo s =
     (if \<not> storageAvailable s then \<lparr>used = 0, quota = 0, percentage = 0\<rparr>
      else
        (let used = foldl (\<lambda>used (key, value). used + (length key + length value) * 2)
                      0 (localStorage s)
         in \<lparr>used = used,
             quota = MAX_LOCALSTORAGE_SIZE,
             percentage = (of_nat used / of_nat MAX_LOCALSTORAGE_SIZE) * 100\<rparr>))"

text \<open>
  The writes to the page are one event, with the information shown and the colour class
  of the bar; the warning toast comes after it.
\<close>

definition updateStorageInfo :: "app_state \<Rightarrow> app_state" where
  "updateStorageInfo s =
     (if \<not> storageAvailable s then s\<lparr>ui := ui s @ [StorageInfoHidden]\<rparr>
      else
        (let info = getStorageInfo s;
             colour = (if percentage info > 90 then ''bg-red-600''
                       else if percentage info > 70 then ''bg-yellow-500''
                       else ''bg-blue-800'');
             s1 = s\<lparr>ui := ui s @ [StorageInfoShown info colour]\<rparr>
         in if percentage info > 85 then
              showToast ''Warning: Running low on storage space. Consider exporting and clearing data.''
                ''warning'' s1
            else s1))"

subsection \<open>Serialising the inventory\<close>

text \<open>
  \<^verbatim>\<open>JSON.stringify\<close> on an array of items: the fields in the order the add form
  writes them, strings quoted and escaped, the quantity in decimal.
\<close>

definition json_escape :: "char \<Rightarrow> string" where
  "json_escape c =
     (if c = CHR 0x22 then [CHR 0x5C, CHR 0x22]
      else if c = CHR 0x5C then [CHR 0x5C, CHR 0x5C]
      else if c = CHR 0x08 then [CHR 0x5C, CHR ''b'']
      else if c = CHR 0x0C then [CHR 0x5C, CHR ''f'']
      else if c = CHR 0x0A then [CHR 0x5C, CHR ''n'']
      else if c = CHR 0x0D then [CHR 0x5C, CHR ''r'']
      else if c = CHR 0x09 then [CHR 0x5C, CHR ''t'']
      else if (of_char c :: nat) < 32 then
        [CHR 0x5C, CHR ''u'', CHR ''0'', CHR ''0'',
         ''0123456789abcdef'' ! (of_char c div 16), ''0123456789abcdef'' ! (of_char c mod 16)]
      else [c])"

definition json_string :: "string \<Rightarrow> string" where
  "json_string str = [CHR 0x22] @ concat (map json_escape str) @ [CHR 0x22]"

definition json_item :: "item \<Rightarrow> string" where
  "json_item it =
     ''{'' @ json_string ''id'' @ '':'' @ json_string (item_id it) @ '','' @
     json_string ''name'' @ '':'' @ json_string (name it) @ '','' @
     json_string ''quantity'' @ '':'' @ show_int (quantity it) @ '','' @
     json_string ''image'' @ '':'' @
       (case item_image it of None \<Rightarrow> ''null'' | Some d \<Rightarrow> json_string d) @ '','' @
     json_string ''createdAt'' @ '':'' @ json_string (createdAt it) @ ''}''"

fun join_commas :: "string list \<Rightarrow> string" where
  "join_commas [] = []"
| "join_commas [x] = x"
| "join_commas (x # y # ys) = x @ '','' @ join_commas (y # ys)"

definition JSON_stringify :: "item list \<Rightarrow> string" where
  "JSON_stringify items = ''['' @ join_commas (map json_item items) @ '']''"

subsection \<open>Durable store\<close>

text \<open>
  \<^verbatim>\<open>localStorage.setItem(key, value)\<close>: the value of an existing key is replaced where
  it stands, a new key is added at the end. Whether the browser refuses the write is the
  environment's choice: \<open>write_fault\<close> is the error it throws at this call, if any.
\<close>

fun store_entry :: "string \<Rightarrow> string \<Rightarrow> (string \<times> string) list \<Rightarrow> (string \<times> string) list" where
  "store_entry key value [] = [(key, value)]"
| "store_entry key value ((k, v) # rest) =
     (if k = key then (k, value) # rest else (k, v) # store_entry key value rest)"

definition setItem ::
  "js_error option \<Rightarrow> string \<Rightarrow> string \<Rightarrow> (string \<times> string) list \<Rightarrow> js_error + (string \<times> string) list" where
  "setItem write_fault key value entries =
     (case write_fault of Some e \<Rightarrow> Inl e | None \<Rightarrow> Inr (store_entry key value entries))"

text \<open>The \<^verbatim>\<open>try\<close> block of \<^verbatim>\<open>saveInventory\<close>; \<open>Inl\<close> is the error it throws.\<close>

definition saveInventory_try :: "js_error option \<Rightarrow> app_state \<Rightarrow> js_error + app_state" where
  "saveInventory_try write_fault s =
     (case setItem write_fault STORAGE_KEY (JSON_stringify (inventory s)) (localStorage s) of
        Inl e \<Rightarrow> Inl e
      | Inr entries \<Rightarrow>
          Inr (updateStorageInfo
                 (showStorageStatus True (Some ''Data saved'') (s\<lparr>localStorage := entries\<rparr>))))"

text \<open>The whole function: the \<^verbatim>\<open>catch\<close> clause turns every error of the block into a report.\<close>

definition saveInventory :: "js_error option \<Rightarrow> app_state \<Rightarrow> app_state" where
  "saveInventory write_fault s =
     (if storageAvailable s then
        (case saveInventory_try write_fault s of
           Inr s' \<Rightarrow> s'
         | Inl error \<Rightarrow>
             (let s1 = console_error ''Error saving to storage:'' (err_message error) s
              in if err_name error = ''QuotaExceededError'' \<or> err_code error = Some 22 then
                   showToast ''Storage quota exceeded. Try removing some items or images.'' ''error''
                     (showStorageStatus False (Some ''Storage quota exceeded'') s1)
                 else showStorageStatus False (Some ''Error saving data'') s1))
      else s)"

subsection \<open>Reading the add form\<close>

text \<open>
  \<^verbatim>\<open>String.prototype.trim\<close> and \<^verbatim>\<open>parseInt(text, 10)\<close>: white space is skipped, then an
  optional sign and the longest run of decimal digits are read; with no digit the result
  is \<^verbatim>\<open>NaN\<close>, here \<open>None\<close>.
\<close>

definition is_space :: "char \<Rightarrow> bool" where
  "is_space c \<longleftrightarrow>
     c \<in> set [CHR 0x09, CHR 0x0A, CHR 0x0B, CHR 0x0C, CHR 0x0D, CHR 0x20, CHR 0xA0]"

definition trim :: "string \<Rightarrow> string" where
  "trim str = rev (dropWhile is_space (rev (dropWhile is_space str)))"

definition is_digit :: "char \<Rightarrow> bool" where
  "is_digit c \<longleftrightarrow> 48 \<le> (of_char c :: nat) \<and> (of_char c :: nat) \<le> 57"

definition digits_value :: "string \<Rightarrow> nat" where
  "digits_value ds = foldl (\<lambda>acc c. acc * 10 + (of_char c - 48)) 0 ds"

definition parseInt :: "string \<Rightarrow> int option" where
  "parseInt str =
     (let s = dropWhile is_space str;
          (negative, rest) =
            (case s of
               [] \<Rightarrow> (False, s)
             | c # cs \<Rightarrow>
                 if c = CHR ''-'' then (True, cs)
                 else if c = CHR ''+'' then (False, cs)
                 else (False, s));
          ds = takeWhile is_digit rest
      in if ds = [] then None
         else Some (if negative then - int (digits_value ds) else int (digits_value ds)))"

subsection \<open>Collection store\<close>

text \<open>\<^verbatim>\<open>Array.prototype.findIndex\<close>: the index of the first element that satisfies the test, or -1.\<close>

fun findIndex :: "('a \<Rightarrow> bool) \<Rightarrow> 'a list \<Rightarrow> int" where
  "findIndex P [] = - 1"
| "findIndex P (x # xs) =
     (if P x then 0
      else (let i = findIndex P xs in if i = - 1 then - 1 else i + 1))"

text \<open>\<^verbatim>\<open>array.splice(index, 1)\<close> for an index inside the array.\<close>

definition splice1 :: "nat \<Rightarrow> 'a list \<Rightarrow> 'a list" where
  "splice1 index xs = take index xs @ drop (index + 1) xs"

text \<open>What a call of a function of the source evaluates to, where a claim speaks of it.\<close>

datatype js_value = Undefined | Boolean bool | Number int

text \<open>
  The submit handler of the add form. \<open>nameValue\<close> and \<open>quantityValue\<close> are the texts of
  the two inputs; \<open>imageResult\<close> is how \<^verbatim>\<open>processImage\<close> settles (\<open>Inl\<close> the message of its
  rejection, \<open>Inr\<close> the encoded image or \<^verbatim>\<open>null\<close>); \<open>newId\<close> and \<open>now\<close> are what
  \<^verbatim>\<open>generateId()\<close> and \<^verbatim>\<open>new Date().toISOString()\<close> give. The locals \<^verbatim>\<open>name\<close> and
  \<^verbatim>\<open>quantity\<close> are \<open>name'\<close> and \<open>quantity'\<close>; past the check the quantity is a number,
  which \<^const>\<open>the\<close> reads.
\<close>

definition addItemForm_submit ::
  "string \<Rightarrow> string \<Rightarrow> string + string option \<Rightarrow> string \<Rightarrow> string \<Rightarrow> js_error option \<Rightarrow>
   app_state \<Rightarrow> app_state" where
  "addItemForm_submit nameValue quantityValue imageResult newId now write_fault s =
     (let name' = trim nameValue;
          parsed = parseInt quantityValue
      in if name' = [] \<or> parsed = None then s
         else
           (let quantity' = the parsed;
                s1 = s\<lparr>ui := ui s @ [LoadingShown]\<rparr>
            in case imageResult of
                 Inr imageData \<Rightarrow>
                   (let newItem = \<lparr>item_id = newId, name = name', quantity = quantity',
                                   item_image = imageData, createdAt = now\<rparr>;
                        s2 = s1\<lparr>inventory := inventory s1 @ [newItem]\<rparr>;
                        s3 = saveInventory write_fault s2;
                        s4 = updateInventoryDisplay s3;
                        s5 = s4\<lparr>ui := ui s4 @ [FormReset, LoadingHidden]\<rparr>
                    in showToast ''Item added successfully'' ''success'' s5)
               | Inl message \<Rightarrow>
                   (let s2 = console_error ''Error processing image:'' message s1;
                        s3 = s2\<lparr>ui := ui s2 @ [LoadingHidden]\<rparr>
                    in showToast (''Error adding item: '' @ message) ''error'' s3)))"

text \<open>
  The card of the item is taken to be on the page, so the new quantity is shown, and
  highlighted when it is zero.
\<close>

definition updateItemQuantity ::
  "string \<Rightarrow> int \<Rightarrow> js_error option \<Rightarrow> app_state \<Rightarrow> js_value \<times> app_state" where
  "updateItemQuantity id' change write_fault s =
     (let index = findIndex (\<lambda>item. item_id item = id') (inventory s)
      in if index \<noteq> - 1 then
           (let newQuantity = max 0 (quantity (inventory s ! nat index) + change);
                s1 = s\<lparr>inventory :=
                         (inventory s)[nat index :=
                            (inventory s ! nat index)\<lparr>quantity := newQuantity\<rparr>]\<rparr>;
                s2 = s1\<lparr>ui := ui s1 @ [QuantityShown id' newQuantity]\<rparr>;
                s3 = (if newQuantity = 0 then s2\<lparr>ui := ui s2 @ [ZeroHighlight id']\<rparr> else s2)
            in (Undefined, saveInventory write_fault s3))
         else (Undefined, s))"

definition deleteItem :: "string \<Rightarrow> js_error option \<Rightarrow> app_state \<Rightarrow> js_value \<times> app_state" where
  "deleteItem id' write_fault s =
     (let index = findIndex (\<lambda>item. item_id item = id') (inventory s)
      in if index \<noteq> - 1 then
           (let s1 = s\<lparr>inventory := splice1 (nat index) (inventory s)\<rparr>;
                s2 = saveInventory write_fault s1;
                s3 = updateInventoryDisplay s2
            in (Undefined, showToast ''Item deleted'' ''info'' s3))
         else (Undefined, s))"

text \<open>Sequences of the three mutations, each with the fault of its write, if any.\<close>

datatype action =
    Add string string "string + string option" string string
  | AdjustQuantity string int
  | Remove string

fun apply_action :: "action \<times> js_error option \<Rightarrow> app_state \<Rightarrow> app_state" where
  "apply_action (Add nameValue quantityValue imageResult newId now, write_fault) s =
     addItemForm_submit nameValue quantityValue imageResult newId now write_fault s"
| "apply_action (AdjustQuantity id' change, write_fault) s =
     snd (updateItemQuantity id' change write_fault s)"
| "apply_action (Remove id', write_fault) s = snd (deleteItem id' write_fault s)"

definition run_actions :: "(action \<times> js_error option) list \<Rightarrow> app_state \<Rightarrow> app_state" where
  "run_actions acts s = fold apply_action acts s"

subsection \<open>Import\<close>

text \<open>
  A parsed JSON document. The \<^verbatim>\<open>onload\<close> handler of the import reads the file's text
  with \<^verbatim>\<open>JSON.parse\<close>: \<open>parsed\<close> is the value it gives, or \<open>Inl\<close> the message of the
  syntax error it throws. For an array the handler opens the confirmation prompt and
  changes nothing until the user confirms.
\<close>

datatype json =
    JNull
  | JBool bool
  | JNumber rat
  | JString string
  | JArray "json list"
  | JObject "(string \<times> json) list"

fun Array_isArray :: "json \<Rightarrow> bool" where
  "Array_isArray (JArray elems) = True"
| "Array_isArray _ = False"

fun array_length :: "json \<Rightarrow> nat" where
  "array_length (JArray elems) = length elems"
| "array_length _ = 0"

text \<open>The \<^verbatim>\<open>try\<close> block of the handler; \<open>Inl\<close> is the message of the error it throws.\<close>

definition importInventory_try :: "string + json \<Rightarrow> app_state \<Rightarrow> string + app_state" where
  "importInventory_try parsed s =
     (case parsed of
        Inl message \<Rightarrow> Inl message
      | Inr importedData \<Rightarrow>
          if \<not> Array_isArray importedData then Inl ''Invalid inventory data format''
          else Inr (s\<lparr>ui := ui s @
                      [ConfirmModal ''Import Inventory''
                         (''This will add '' @ show_nat (array_length importedData) @
                          '' items to your inventory. Continue?'')]\<rparr>))"

definition importInventory_onload :: "string + json \<Rightarrow> app_state \<Rightarrow> app_state" where
  "importInventory_onload parsed s =
     (case importInventory_try parsed s of
        Inr s' \<Rightarrow> s'
      | Inl message \<Rightarrow>
          showToast (''Error importing inventory data: '' @ message) ''error''
            (console_error ''Import error:'' message s))"

subsection \<open>Sample inputs\<close>

fun flaky_once :: "nat \<Rightarrow> fetch_outcome" where
  "flaky_once k =
     (if k < 1 then Rejects ''Failed to fetch''
      else Resolves \<lparr>ok = True, status = 200, body = ''{}''\<rparr>)"

fun flaky_twice :: "nat \<Rightarrow> fetch_outcome" where
  "flaky_twice k =
     (if k = 0 then Rejects ''Failed to fetch''
      else if k = 1 then Resolves \<lparr>ok = False, status = 503, body = []\<rparr>
      else Resolves \<lparr>ok = True, status = 200, body = ''{}''\<rparr>)"

fun always_down :: "nat \<Rightarrow> fetch_outcome" where
  "always_down k = Rejects ''Failed to fetch''"

definition widget :: item where
  "widget = \<lparr>item_id = ''k1'', name = ''Widget'', quantity = 5, item_image = None,
             createdAt = ''2024-01-01T00:00:00.000Z''\<rparr>"

definition gadget :: item where
  "gadget = \<lparr>item_id = ''k2'', name = ''Gadget'', quantity = 2,
             item_image = Some ''data:image/jpeg;base64,AA'',
             createdAt = ''2024-01-02T00:00:00.000Z''\<rparr>"

definition empty_state :: app_state where
  "empty_state = \<lparr>inventory = [], storageAvailable = True, localStorage = [], ui = []\<rparr>"

definition stocked_state :: app_state where
  "stocked_state =
     \<lparr>inventory = [widget, gadget], storageAvailable = True, localStorage = [], ui = []\<rparr>"

text \<open>A browser that refuses storage although an entry is kept in it.\<close>

definition blocked_state :: app_state where
  "blocked_state =
     \<lparr>inventory = [widget], storageAvailable = False,
      localStorage = [(''theme'', ''dark'')], ui = []\<rparr>"

text \<open>One entry of 14 + 2359282 characters: 4.5 MiB at two bytes a character.\<close>

definition nearly_full_state :: app_state where
  "nearly_full_state =
     \<lparr>inventory = [widget], storageAvailable = True,
      localStorage = [(''stockInventory'', replicate 2359282 (CHR ''x''))], ui = []\<rparr>"

definition quota_error :: js_error where
  "quota_error =
     \<lparr>err_name = ''QuotaExceededError'', err_code = Some 22,
      err_message = ''The quota has been exceeded.''\<rparr>"

definition security_error :: js_error where
  "security_error =
     \<lparr>err_name = ''SecurityError'', err_code = Some 18,
      err_message = ''The operation is insecure.''\<rparr>"

subsection \<open>Observations used in the statements\<close>

text \<open>The warning toast of the capacity monitor.\<close>

definition low_storage_warning :: ui_event where
  "low_storage_warning =
     Toast ''Warning: Running low on storage space. Consider exporting and clearing data.''
       ''warning''"

text \<open>An add whose quantity text, if it reads as a number at all, reads as one that is not negative.\<close>

fun nonneg_add :: "action \<Rightarrow> bool" where
  "nonneg_add (Add nameValue quantityValue imageResult newId now) =
     (case parseInt quantityValue of None \<Rightarrow> True | Some q \<Rightarrow> 0 \<le> q)"
| "nonneg_add (AdjustQuantity id' change) = True"
| "nonneg_add (Remove id') = True"

section \<open>Retryable fetch\<close>

lemma fetchLoop_done:
  "\<not> int a < m \<Longrightarrow>
   fetchLoop e m a le =
     (Inl (''Failed after '' @ show_int m @ '' attempts: '' @
           (case le of Some msg \<Rightarrow> msg | None \<Rightarrow> ''Unknown error'')), [])"
  by (subst fetchLoop.simps) simp

lemma fetchLoop_success:
  "int a < m \<Longrightarrow> attempt_fetch (e a) = Inr r \<Longrightarrow> fetchLoop e m a le = (Inr r, [FetchCall a])"
  by (subst fetchLoop.simps) simp

lemma fetchLoop_failure:
  "int a < m \<Longrightarrow> attempt_fetch (e a) = Inl msg \<Longrightarrow>
   fetchLoop e m a le =
     (fst (fetchLoop e m (Suc a) (Some msg)),
      [FetchCall a, ConsoleWarn (''Attempt '' @ show_nat (Suc a) @ '' failed: '' @ msg),
       Sleep (backoff_delay a)] @ snd (fetchLoop e m (Suc a) (Some msg)))"
  by (subst fetchLoop.simps) (simp add: split_beta)

lemma show_nat_digit: "n < 10 \<Longrightarrow> show_nat n = [''0123456789'' ! n]"
  by (subst show_nat.simps) simp

text \<open>
  Where a request stands in the events of the loop: the first one opens them, and every
  later one comes right after the wait computed from the index of the attempt before it.
\<close>

lemma fetchLoop_wait_before:
  "p < length (snd (fetchLoop e m a le)) \<Longrightarrow> snd (fetchLoop e m a le) ! p = FetchCall k \<Longrightarrow>
   a \<le> k \<and> (k = a \<longleftrightarrow> p = 0) \<and>
   (a < k \<longrightarrow> snd (fetchLoop e m a le) ! (p - 1) = Sleep (backoff_delay (k - 1)))"
proof (induction e m a le arbitrary: p rule: fetchLoop.induct)
  case (1 endpoint maxRetries attempt lastError)
  show ?case
  proof (cases "int attempt < maxRetries")
    case False
    with "1.prems" show ?thesis by (simp add: fetchLoop_done)
  next
    case True
    show ?thesis
    proof (cases "attempt_fetch (endpoint attempt)")
      case (Inr r)
      with True "1.prems" show ?thesis by (simp add: fetchLoop_success)
    next
      case (Inl msg)
      define rest where "rest = snd (fetchLoop endpoint maxRetries (attempt + 1) (Some msg))"
      define w where "w = ConsoleWarn (''Attempt '' @ show_nat (Suc attempt) @ '' failed: '' @ msg)"
      have evs: "snd (fetchLoop endpoint maxRetries attempt lastError) =
          [FetchCall attempt, w, Sleep (backoff_delay attempt)] @ rest"
        unfolding rest_def w_def by (simp add: fetchLoop_failure[of attempt maxRetries endpoint msg lastError, OF True Inl])
      have IH: "\<And>q. q < length rest \<Longrightarrow> rest ! q = FetchCall k \<Longrightarrow>
          attempt + 1 \<le> k \<and> (k = attempt + 1 \<longleftrightarrow> q = 0) \<and>
          (attempt + 1 < k \<longrightarrow> rest ! (q - 1) = Sleep (backoff_delay (k - 1)))"
        unfolding rest_def using "1.IH"[OF True Inl refl] by blast
      consider "p = 0" | "p = 1" | "p = 2" | "3 \<le> p" by linarith
      then show ?thesis
      proof cases
        case 1
        with "1.prems" evs show ?thesis by simp
      next
        case 2
        with "1.prems" evs show ?thesis by (simp add: w_def)
      next
        case 3
        with "1.prems" evs show ?thesis by simp
      next
        case 4
        then obtain q where q: "p = q + 3" by (metis add.commute le_Suc_ex)
        from "1.prems" evs q have ql: "q < length rest" and qk: "rest ! q = FetchCall k"
          by (simp_all add: nth_append nth_Cons')
        note h = IH[OF ql qk]
        show ?thesis
        proof (cases "q = 0")
          case True
          with h have "k = attempt + 1" by simp
          with True q evs show ?thesis by simp
        next
          case False
          with h have "attempt + 1 < k" and s: "rest ! (q - 1) = Sleep (backoff_delay (k - 1))"
            by auto
          moreover have "([FetchCall attempt, w, Sleep (backoff_delay attempt)] @ rest) ! (p - 1) =
              rest ! (q - 1)"
            using q False by (simp add: nth_append nth_Cons' numeral_3_eq_3)
          ultimately show ?thesis using evs q by simp
        qed
      qed
    qed
  qed
qed

lemma flaky_twice_two_attempts:
  "fetchWithRetry flaky_twice 2 =
     (Inl ''Failed after 2 attempts: HTTP error! Status: 503'',
      [FetchCall 0, ConsoleWarn ''Attempt 1 failed: Failed to fetch'', Sleep 100,
       FetchCall 1, ConsoleWarn ''Attempt 2 failed: HTTP error! Status: 503'', Sleep 200])"
  by (simp add: fetchWithRetry_def fetchLoop.simps attempt_fetch_def backoff_delay_def
      show_nat_digit show_nat.simps[of 503] show_nat.simps[of 50] show_int_def)

lemma flaky_once_trace:
  "fetchWithRetry flaky_once 3 =
     (Inr \<lparr>ok = True, status = 200, body = ''{}''\<rparr>,
      [FetchCall 0, ConsoleWarn ''Attempt 1 failed: Failed to fetch'', Sleep 100, FetchCall 1])"
  by (simp add: fetchWithRetry_def fetchLoop.simps attempt_fetch_def backoff_delay_def
      show_nat_digit)

text \<open>
  Claim C1, as it is written, taken at an endpoint that fails once and then answers: the
  second request (attempt 1) is event 3 of the call, the wait before it is 100 ms, and
  the claim's formula for attempt 1 gives \<open>min (2 ^ 1 * 100) 2000\<close>, that is 200 ms.
  And at an endpoint that fails twice and then would answer, called with two attempts
  allowed: the two waits are made and the call fails, the answer is never asked for.
\<close>

theorem fetchWithRetry_delay_formula_counterexample:
  "snd (fetchWithRetry flaky_once 3) ! 3 = FetchCall 1 \<and>
   snd (fetchWithRetry flaky_once 3) ! (3 - 1) = Sleep 100 \<and>
   snd (fetchWithRetry flaky_once 3) ! (3 - 1) \<noteq> Sleep (min (2 ^ 1 * 100) 2000) \<and>
   fst (fetchWithRetry flaky_twice 2) = Inl ''Failed after 2 attempts: HTTP error! Status: 503''"
  by (simp add: flaky_once_trace flaky_twice_two_attempts)

text \<open>
  Claim C1, amended: in every call of \<open>fetchWithRetry\<close>, a request with attempt index
  \<open>k \<ge> 1\<close> that is made comes right after a wait of \<open>min (2 ^ (k - 1) * 100) 2000\<close>
  milliseconds (the delay is computed from the index of the attempt that just failed);
  and when the first two attempts fail, the third succeeds and at least three attempts
  are allowed, the call returns that response after exactly two waits, of 100 ms and of
  200 ms.
\<close>

theorem fetchWithRetry_backoff:
  "(p < length (snd (fetchWithRetry e m)) \<and> snd (fetchWithRetry e m) ! p = FetchCall k \<and> 1 \<le> k \<longrightarrow>
      1 \<le> p \<and> snd (fetchWithRetry e m) ! (p - 1) = Sleep (min (2 ^ (k - 1) * 100) 2000)) \<and>
   (attempt_fetch (e 0) = Inl m0 \<and> attempt_fetch (e 1) = Inl m1 \<and>
    attempt_fetch (e 2) = Inr r \<and> 3 \<le> m \<longrightarrow>
      fetchWithRetry e m =
        (Inr r, [FetchCall 0, ConsoleWarn (''Attempt 1 failed: '' @ m0), Sleep 100,
                 FetchCall 1, ConsoleWarn (''Attempt 2 failed: '' @ m1), Sleep 200,
                 FetchCall 2]))"
proof (intro conjI impI)
  assume h: "p < length (snd (fetchWithRetry e m)) \<and> snd (fetchWithRetry e m) ! p = FetchCall k \<and> 1 \<le> k"
  then have "p < length (snd (fetchLoop e m 0 None))" "snd (fetchLoop e m 0 None) ! p = FetchCall k"
    by (simp_all add: fetchWithRetry_def)
  from fetchLoop_wait_before[OF this] h
  show "1 \<le> p" and "snd (fetchWithRetry e m) ! (p - 1) = Sleep (min (2 ^ (k - 1) * 100) 2000)"
    by (auto simp: fetchWithRetry_def backoff_delay_def)
next
  assume h: "attempt_fetch (e 0) = Inl m0 \<and> attempt_fetch (e 1) = Inl m1 \<and>
    attempt_fetch (e 2) = Inr r \<and> 3 \<le> m"
  have l2: "fetchLoop e m (Suc (Suc 0)) (Some m1) = (Inr r, [FetchCall 2])"
    using h fetchLoop_success[of "Suc (Suc 0)" m e r] by (simp add: numeral_2_eq_2)
  have l1: "fetchLoop e m (Suc 0) (Some m0) =
     (Inr r, [FetchCall 1, ConsoleWarn (''Attempt 2 failed: '' @ m1), Sleep 200, FetchCall 2])"
    using h fetchLoop_failure[of "Suc 0" m e m1 "Some m0"] l2
    by (simp add: backoff_delay_def show_nat_digit)
  show "fetchWithRetry e m =
        (Inr r, [FetchCall 0, ConsoleWarn (''Attempt 1 failed: '' @ m0), Sleep 100,
                 FetchCall 1, ConsoleWarn (''Attempt 2 failed: '' @ m1), Sleep 200,
                 FetchCall 2])"
    unfolding fetchWithRetry_def
    using h fetchLoop_failure[of 0 m e m0 None] l1
    by (simp add: backoff_delay_def show_nat_digit)
qed

text \<open>
  Claim C1, amended, at an endpoint that rejects, then answers 503, then answers 200:
  the third request is event 6 and follows a wait of 200 ms.
\<close>

theorem fetchWithRetry_backoff_witness:
  "fetchWithRetry flaky_twice 3 =
     (Inr \<lparr>ok = True, status = 200, body = ''{}''\<rparr>,
      [FetchCall 0, ConsoleWarn ''Attempt 1 failed: Failed to fetch'', Sleep 100,
       FetchCall 1, ConsoleWarn ''Attempt 2 failed: HTTP error! Status: 503'', Sleep 200,
       FetchCall 2]) \<and>
   snd (fetchWithRetry flaky_twice 3) ! (6 - 1) = Sleep (min (2 ^ (2 - 1) * 100) 2000)"
proof -
  have a0: "attempt_fetch (flaky_twice 0) = Inl ''Failed to fetch''"
    by (simp add: attempt_fetch_def)
  have a1: "attempt_fetch (flaky_twice 1) = Inl ''HTTP error! Status: 503''"
    by (simp add: attempt_fetch_def show_nat.simps)
  have a2: "attempt_fetch (flaky_twice 2) = Inr \<lparr>ok = True, status = 200, body = ''{}''\<rparr>"
    by (simp add: attempt_fetch_def)
  note inst = fetchWithRetry_backoff[of 6 flaky_twice 3 2 "''Failed to fetch''"
      "''HTTP error! Status: 503''" "\<lparr>ok = True, status = 200, body = ''{}''\<rparr>"]
  from inst a0 a1 a2 have tr: "fetchWithRetry flaky_twice 3 =
     (Inr \<lparr>ok = True, status = 200, body = ''{}''\<rparr>,
      [FetchCall 0, ConsoleWarn ''Attempt 1 failed: Failed to fetch'', Sleep 100,
       FetchCall 1, ConsoleWarn ''Attempt 2 failed: HTTP error! Status: 503'', Sleep 200,
       FetchCall 2])"
    by simp
  then have "6 < length (snd (fetchWithRetry flaky_twice 3)) \<and>
      snd (fetchWithRetry flaky_twice 3) ! 6 = FetchCall 2 \<and> (1::nat) \<le> 2"
    by simp
  with inst have "snd (fetchWithRetry flaky_twice 3) ! (6 - 1) = Sleep (min (2 ^ (2 - 1) * 100) 2000)"
    by blast
  with tr show ?thesis by blast
qed

text \<open>
  Claim C2 at an endpoint on which every attempt fails, with three attempts allowed: the
  error carries the count 3 and the last underlying message, but the call has waited
  three times (100 ms, 200 ms and, after the last attempt, 400 ms), not twice.
\<close>

theorem fetchWithRetry_exhausted_waits_three_times:
  "fetchWithRetry always_down 3 =
     (Inl ''Failed after 3 attempts: Failed to fetch'',
      [FetchCall 0, ConsoleWarn ''Attempt 1 failed: Failed to fetch'', Sleep 100,
       FetchCall 1, ConsoleWarn ''Attempt 2 failed: Failed to fetch'', Sleep 200,
       FetchCall 2, ConsoleWarn ''Attempt 3 failed: Failed to fetch'', Sleep 400])"
  by (simp add: fetchWithRetry_def fetchLoop.simps attempt_fetch_def backoff_delay_def
      show_nat_digit show_int_def)

section \<open>Collection store\<close>

subsection \<open>Finding an item by its id\<close>

lemma findIndex_ge: "- 1 \<le> findIndex P xs"
  by (induction xs) (auto simp: Let_def)

lemma findIndex_absent: "findIndex P xs = - 1 \<longleftrightarrow> (\<forall>x \<in> set xs. \<not> P x)"
proof (induction xs)
  case Nil
  show ?case by simp
next
  case (Cons x xs)
  have "- 1 \<le> findIndex P xs" by (rule findIndex_ge)
  with Cons show ?case by (auto simp: Let_def)
qed

lemma findIndex_first:
  "findIndex P xs \<noteq> - 1 \<Longrightarrow>
   nat (findIndex P xs) < length xs \<and> 0 \<le> findIndex P xs \<and> P (xs ! nat (findIndex P xs)) \<and>
   (\<forall>j < nat (findIndex P xs). \<not> P (xs ! j))"
proof (induction xs)
  case Nil
  then show ?case by simp
next
  case (Cons x xs)
  show ?case
  proof (cases "P x")
    case True
    then show ?thesis by simp
  next
    case False
    with Cons.prems have ne: "findIndex P xs \<noteq> - 1"
      by (auto simp: Let_def split: if_splits)
    note ih = Cons.IH[OF ne]
    from False ne have eq: "findIndex P (x # xs) = findIndex P xs + 1"
      by (simp add: Let_def)
    from ih have n: "nat (findIndex P xs + 1) = Suc (nat (findIndex P xs))" by auto
    show ?thesis
      unfolding eq n using ih False by (auto simp: nth_Cons')
  qed
qed

subsection \<open>What each operation does to the collection\<close>

lemma updateStorageInfo_frame:
  "inventory (updateStorageInfo s) = inventory s"
  "storageAvailable (updateStorageInfo s) = storageAvailable s"
  "localStorage (updateStorageInfo s) = localStorage s"
  by (simp_all add: updateStorageInfo_def showToast_def Let_def)

lemma saveInventory_inventory: "inventory (saveInventory f s) = inventory s"
  by (cases f)
     (simp_all add: saveInventory_def saveInventory_try_def setItem_def showToast_def
        showStorageStatus_def console_error_def updateStorageInfo_frame Let_def)

lemma updateItemQuantity_inventory:
  "inventory (snd (updateItemQuantity id' change f s)) =
     (let index = findIndex (\<lambda>item. item_id item = id') (inventory s)
      in if index \<noteq> - 1 then
           (inventory s)[nat index :=
              (inventory s ! nat index)
                \<lparr>quantity := max 0 (quantity (inventory s ! nat index) + change)\<rparr>]
         else inventory s)"
  by (simp add: updateItemQuantity_def Let_def saveInventory_inventory)

lemma deleteItem_inventory:
  "inventory (snd (deleteItem id' f s)) =
     (let index = findIndex (\<lambda>item. item_id item = id') (inventory s)
      in if index \<noteq> - 1 then splice1 (nat index) (inventory s) else inventory s)"
  by (simp add: deleteItem_def Let_def saveInventory_inventory showToast_def
      updateInventoryDisplay_def)

lemma addItemForm_submit_inventory:
  "inventory (addItemForm_submit nv qv img newId now f s) =
     (case parseInt qv of
        None \<Rightarrow> inventory s
      | Some q \<Rightarrow>
          if trim nv = [] then inventory s
          else (case img of
                  Inl msg \<Rightarrow> inventory s
                | Inr d \<Rightarrow> inventory s @ [\<lparr>item_id = newId, name = trim nv, quantity = q,
                                            item_image = d, createdAt = now\<rparr>]))"
  by (auto simp: addItemForm_submit_def Let_def saveInventory_inventory showToast_def
        updateInventoryDisplay_def console_error_def split: option.splits sum.splits)

subsection \<open>Quantities\<close>

text \<open>
  Claim C3 at the add form submitted with the quantity text \<open>-5\<close> on the empty
  collection: the handler rejects only a quantity that is not a number, so the item is
  stored with quantity -5.
\<close>

theorem add_negative_quantity_accepted:
  "map quantity
     (inventory
        (run_actions
           [(Add ''Widget'' ''-5'' (Inr None) ''k1'' ''2024-01-01T00:00:00.000Z'', None)]
           empty_state)) = [- 5]"
  by (simp add: run_actions_def addItemForm_submit_inventory parseInt_def trim_def
      is_space_def is_digit_def digits_value_def empty_state_def Let_def)

text \<open>
  What does hold of sequences: adjusting and removing never make a quantity negative, so
  the quantities stay non-negative as long as no add brings a negative one in.
\<close>

lemma apply_action_nonneg:
  assumes "\<forall>it \<in> set (inventory s). 0 \<le> quantity it" and "nonneg_add (fst a)"
  shows "\<forall>it \<in> set (inventory (apply_action a s)). 0 \<le> quantity it"
proof (cases a)
  case (Pair act f)
  show ?thesis
  proof (cases act)
    case (Add nv qv img newId now)
    with Pair assms show ?thesis
      by (auto simp: addItemForm_submit_inventory split: option.splits sum.splits)
  next
    case (AdjustQuantity i d)
    with Pair assms show ?thesis
      by (auto simp: updateItemQuantity_inventory Let_def
          dest!: set_update_subset_insert[THEN subsetD])
  next
    case (Remove i)
    with Pair assms show ?thesis
      by (auto simp: deleteItem_inventory Let_def splice1_def dest: in_set_takeD in_set_dropD)
  qed
qed

lemma run_actions_nonneg:
  "\<forall>it \<in> set (inventory s). 0 \<le> quantity it \<Longrightarrow> \<forall>a \<in> set acts. nonneg_add (fst a) \<Longrightarrow>
   \<forall>it \<in> set (inventory (run_actions acts s)). 0 \<le> quantity it"
  unfolding run_actions_def
proof (induction acts arbitrary: s)
  case Nil
  then show ?case by simp
next
  case (Cons a acts)
  have "\<forall>it \<in> set (inventory (apply_action a s)). 0 \<le> quantity it"
    using Cons.prems by (intro apply_action_nonneg) auto
  then show ?case using Cons.IH Cons.prems by simp
qed

subsection \<open>Removing an item\<close>

text \<open>
  Claim C4, as it is written, at a collection that holds the item \<open>k1\<close> first: the item
  is found and removed, and the call does not evaluate to \<open>true\<close>.
\<close>

theorem deleteItem_returns_bool_counterexample:
  "item_id (inventory stocked_state ! 0) = ''k1'' \<and>
   inventory (snd (deleteItem ''k1'' None stocked_state)) = [gadget] \<and>
   fst (deleteItem ''k1'' None stocked_state) \<noteq> Boolean True"
proof -
  have "fst (deleteItem ''k1'' None stocked_state) = Undefined"
    by (simp add: deleteItem_def Let_def)
  then show ?thesis
    by (simp add: deleteItem_inventory Let_def splice1_def stocked_state_def widget_def
        gadget_def)
qed

text \<open>
  Claim C4, amended: \<open>deleteItem\<close> returns no value (the call evaluates to
  \<^verbatim>\<open>undefined\<close> whether or not the id is found). When no item has the id, the whole
  state, and so the collection and its length, is unchanged. When an item has it, the
  first such item is removed, the others keep their order, the collection is one
  shorter, and the removal is notified by the toast \<open>Item deleted\<close>.
\<close>

theorem deleteItem_result:
  "fst (deleteItem id' f s) = Undefined \<and>
   ((\<forall>it \<in> set (inventory s). item_id it \<noteq> id') \<longrightarrow> snd (deleteItem id' f s) = s) \<and>
   ((\<exists>it \<in> set (inventory s). item_id it = id') \<longrightarrow>
      (\<exists>i < length (inventory s).
         item_id (inventory s ! i) = id' \<and> (\<forall>j < i. item_id (inventory s ! j) \<noteq> id') \<and>
         inventory (snd (deleteItem id' f s)) = take i (inventory s) @ drop (Suc i) (inventory s)) \<and>
      Suc (length (inventory (snd (deleteItem id' f s)))) = length (inventory s) \<and>
      last (ui (snd (deleteItem id' f s))) = Toast ''Item deleted'' ''info'')"
proof (intro conjI impI)
  show "fst (deleteItem id' f s) = Undefined"
    by (simp add: deleteItem_def Let_def)
next
  assume "\<forall>it \<in> set (inventory s). item_id it \<noteq> id'"
  then have "findIndex (\<lambda>item. item_id item = id') (inventory s) = - 1"
    by (simp add: findIndex_absent)
  then show "snd (deleteItem id' f s) = s"
    by (simp add: deleteItem_def)
next
  assume "\<exists>it \<in> set (inventory s). item_id it = id'"
  then have ne: "findIndex (\<lambda>item. item_id item = id') (inventory s) \<noteq> - 1"
    by (simp add: findIndex_absent)
  define i where "i = nat (findIndex (\<lambda>item. item_id item = id') (inventory s))"
  from findIndex_first[OF ne]
  have i: "i < length (inventory s)" "item_id (inventory s ! i) = id'"
    "\<forall>j < i. item_id (inventory s ! j) \<noteq> id'"
    unfolding i_def by auto
  have inv: "inventory (snd (deleteItem id' f s)) =
      take i (inventory s) @ drop (Suc i) (inventory s)"
    using ne by (simp add: deleteItem_inventory i_def splice1_def Let_def)
  show "\<exists>i < length (inventory s).
         item_id (inventory s ! i) = id' \<and> (\<forall>j < i. item_id (inventory s ! j) \<noteq> id') \<and>
         inventory (snd (deleteItem id' f s)) = take i (inventory s) @ drop (Suc i) (inventory s)"
    using i inv by blast
  show "Suc (length (inventory (snd (deleteItem id' f s)))) = length (inventory s)"
    using i(1) by (simp add: inv)
  show "last (ui (snd (deleteItem id' f s))) = Toast ''Item deleted'' ''info''"
    using ne by (simp add: deleteItem_def Let_def showToast_def)
qed

text \<open>
  Claim C4, amended, on the collection of the widget \<open>k1\<close> and the gadget \<open>k2\<close>:
  removing \<open>k2\<close> leaves the widget, removing the absent \<open>k9\<close> leaves the state as it was.
\<close>

theorem deleteItem_result_witness:
  "fst (deleteItem ''k2'' None stocked_state) = Undefined \<and>
   inventory (snd (deleteItem ''k2'' None stocked_state)) = [widget] \<and>
   last (ui (snd (deleteItem ''k2'' None stocked_state))) = Toast ''Item deleted'' ''info'' \<and>
   snd (deleteItem ''k9'' None stocked_state) = stocked_state"
proof -
  have present: "\<exists>it \<in> set (inventory stocked_state). item_id it = ''k2''"
    by (simp add: stocked_state_def widget_def gadget_def)
  have absent: "\<forall>it \<in> set (inventory stocked_state). item_id it \<noteq> ''k9''"
    by (simp add: stocked_state_def widget_def gadget_def)
  from deleteItem_result[of "''k2''" None stocked_state] present
  obtain i where i: "i < length (inventory stocked_state)"
      "item_id (inventory stocked_state ! i) = ''k2''"
      "inventory (snd (deleteItem ''k2'' None stocked_state)) =
         take i (inventory stocked_state) @ drop (Suc i) (inventory stocked_state)"
    and rest: "fst (deleteItem ''k2'' None stocked_state) = Undefined"
      "last (ui (snd (deleteItem ''k2'' None stocked_state))) = Toast ''Item deleted'' ''info''"
    by blast
  from i(1,2) have "i = 1"
    by (cases i) (auto simp: stocked_state_def widget_def gadget_def)
  with i(3) have "inventory (snd (deleteItem ''k2'' None stocked_state)) = [widget]"
    by (simp add: stocked_state_def)
  moreover from deleteItem_result[of "''k9''" None stocked_state] absent
  have "snd (deleteItem ''k9'' None stocked_state) = stocked_state" by blast
  ultimately show ?thesis using rest by simp
qed

subsection \<open>Adjusting a quantity\<close>

text \<open>
  Claim C5: when no item has the id, \<open>updateItemQuantity\<close> changes nothing (the whole
  state, and so the collection, is as before); otherwise the first item with that id gets
  the quantity \<open>max 0 (current + change)\<close>, which is never negative.
\<close>

theorem updateItemQuantity_clamps:
  "((\<forall>it \<in> set (inventory s). item_id it \<noteq> id') \<longrightarrow>
      snd (updateItemQuantity id' change f s) = s) \<and>
   ((\<exists>it \<in> set (inventory s). item_id it = id') \<longrightarrow>
      (\<exists>i < length (inventory s).
         item_id (inventory s ! i) = id' \<and> (\<forall>j < i. item_id (inventory s ! j) \<noteq> id') \<and>
         inventory (snd (updateItemQuantity id' change f s)) =
           (inventory s)[i := (inventory s ! i)
              \<lparr>quantity := max 0 (quantity (inventory s ! i) + change)\<rparr>] \<and>
         quantity (inventory (snd (updateItemQuantity id' change f s)) ! i) =
           max 0 (quantity (inventory s ! i) + change) \<and>
         0 \<le> quantity (inventory (snd (updateItemQuantity id' change f s)) ! i)))"
proof (intro conjI impI)
  assume "\<forall>it \<in> set (inventory s). item_id it \<noteq> id'"
  then have "findIndex (\<lambda>item. item_id item = id') (inventory s) = - 1"
    by (simp add: findIndex_absent)
  then show "snd (updateItemQuantity id' change f s) = s"
    by (simp add: updateItemQuantity_def)
next
  assume "\<exists>it \<in> set (inventory s). item_id it = id'"
  then have ne: "findIndex (\<lambda>item. item_id item = id') (inventory s) \<noteq> - 1"
    by (simp add: findIndex_absent)
  define i where "i = nat (findIndex (\<lambda>item. item_id item = id') (inventory s))"
  from findIndex_first[OF ne]
  have i: "i < length (inventory s)" "item_id (inventory s ! i) = id'"
    "\<forall>j < i. item_id (inventory s ! j) \<noteq> id'"
    unfolding i_def by auto
  have inv: "inventory (snd (updateItemQuantity id' change f s)) =
      (inventory s)[i := (inventory s ! i)
         \<lparr>quantity := max 0 (quantity (inventory s ! i) + change)\<rparr>]"
    using ne by (simp add: updateItemQuantity_inventory i_def Let_def)
  have q: "quantity (inventory (snd (updateItemQuantity id' change f s)) ! i) =
      max 0 (quantity (inventory s ! i) + change)"
    using i(1) by (simp add: inv)
  show "\<exists>i < length (inventory s).
         item_id (inventory s ! i) = id' \<and> (\<forall>j < i. item_id (inventory s ! j) \<noteq> id') \<and>
         inventory (snd (updateItemQuantity id' change f s)) =
           (inventory s)[i := (inventory s ! i)
              \<lparr>quantity := max 0 (quantity (inventory s ! i) + change)\<rparr>] \<and>
         quantity (inventory (snd (updateItemQuantity id' change f s)) ! i) =
           max 0 (quantity (inventory s ! i) + change) \<and>
         0 \<le> quantity (inventory (snd (updateItemQuantity id' change f s)) ! i)"
    using i inv q by (intro exI[of _ i]) simp
qed

text \<open>
  Claim C5 on the widget, whose quantity is 5: a change of -999999 leaves it at 0, and
  on the absent id \<open>k9\<close> the state is unchanged.
\<close>

theorem updateItemQuantity_clamps_witness:
  "quantity widget = 5 \<and>
   inventory (snd (updateItemQuantity ''k1'' (- 999999) None stocked_state)) =
     [widget\<lparr>quantity := 0\<rparr>, gadget] \<and>
   snd (updateItemQuantity ''k9'' (- 999999) None stocked_state) = stocked_state"
proof -
  have present: "\<exists>it \<in> set (inventory stocked_state). item_id it = ''k1''"
    by (simp add: stocked_state_def widget_def gadget_def)
  have absent: "\<forall>it \<in> set (inventory stocked_state). item_id it \<noteq> ''k9''"
    by (simp add: stocked_state_def widget_def gadget_def)
  from updateItemQuantity_clamps[of stocked_state "''k1''" "- 999999" None] present
  obtain i where i: "i < length (inventory stocked_state)"
      "\<forall>j < i. item_id (inventory stocked_state ! j) \<noteq> ''k1''"
      "inventory (snd (updateItemQuantity ''k1'' (- 999999) None stocked_state)) =
         (inventory stocked_state)[i := (inventory stocked_state ! i)
            \<lparr>quantity := max 0 (quantity (inventory stocked_state ! i) + - 999999)\<rparr>]"
    by blast
  have "i = 0"
  proof (rule ccontr)
    assume "i \<noteq> 0"
    then have "0 < i" by simp
    with i(2) have "item_id (inventory stocked_state ! 0) \<noteq> ''k1''" by blast
    then show False by (simp add: stocked_state_def widget_def)
  qed
  with i(3) have "inventory (snd (updateItemQuantity ''k1'' (- 999999) None stocked_state)) =
      [widget\<lparr>quantity := 0\<rparr>, gadget]"
    by (simp add: stocked_state_def widget_def)
  moreover from updateItemQuantity_clamps[of stocked_state "''k9''" "- 999999" None] absent
  have "snd (updateItemQuantity ''k9'' (- 999999) None stocked_state) = stocked_state" by blast
  ultimately show ?thesis by (simp add: widget_def)
qed

text \<open>
  Claim C10: for an id that is in the collection, \<open>updateItemQuantity\<close> keeps the length
  of the collection and, position by position, the id, name, image and creation time of
  every item (so the order too); every item other than the first one with that id is
  unchanged altogether.
\<close>

theorem updateItemQuantity_frame:
  assumes "\<exists>it \<in> set (inventory s). item_id it = id'"
  shows "length (inventory (snd (updateItemQuantity id' change f s))) = length (inventory s) \<and>
     map (\<lambda>it. (item_id it, name it, item_image it, createdAt it))
         (inventory (snd (updateItemQuantity id' change f s))) =
       map (\<lambda>it. (item_id it, name it, item_image it, createdAt it)) (inventory s) \<and>
     (\<exists>i < length (inventory s).
        item_id (inventory s ! i) = id' \<and> (\<forall>j < i. item_id (inventory s ! j) \<noteq> id') \<and>
        (\<forall>j < length (inventory s). j \<noteq> i \<longrightarrow>
           inventory (snd (updateItemQuantity id' change f s)) ! j = inventory s ! j))"
proof -
  from assms have ne: "findIndex (\<lambda>item. item_id item = id') (inventory s) \<noteq> - 1"
    by (simp add: findIndex_absent)
  define i where "i = nat (findIndex (\<lambda>item. item_id item = id') (inventory s))"
  define q where "q = max 0 (quantity (inventory s ! i) + change)"
  from findIndex_first[OF ne]
  have i: "i < length (inventory s)" "item_id (inventory s ! i) = id'"
    "\<forall>j < i. item_id (inventory s ! j) \<noteq> id'"
    unfolding i_def by auto
  have inv: "inventory (snd (updateItemQuantity id' change f s)) =
      (inventory s)[i := (inventory s ! i)\<lparr>quantity := q\<rparr>]"
    using ne by (simp add: updateItemQuantity_inventory i_def q_def Let_def)
  have len: "length (inventory (snd (updateItemQuantity id' change f s))) = length (inventory s)"
    by (simp add: inv)
  have fields: "map (\<lambda>it. (item_id it, name it, item_image it, createdAt it))
         (inventory (snd (updateItemQuantity id' change f s))) =
       map (\<lambda>it. (item_id it, name it, item_image it, createdAt it)) (inventory s)"
    unfolding inv using i(1) by (intro nth_equalityI) (auto simp: nth_list_update)
  have others: "\<forall>j < length (inventory s). j \<noteq> i \<longrightarrow>
           inventory (snd (updateItemQuantity id' change f s)) ! j = inventory s ! j"
    by (simp add: inv)
  show ?thesis using len fields i others by blast
qed

text \<open>
  Claim C10 on the widget and the gadget: decrementing the gadget keeps the ids in
  place and the widget as it was.
\<close>

theorem updateItemQuantity_frame_witness:
  "map item_id (inventory (snd (updateItemQuantity ''k2'' (- 1) None stocked_state))) =
     [''k1'', ''k2''] \<and>
   inventory (snd (updateItemQuantity ''k2'' (- 1) None stocked_state)) ! 0 = widget"
proof -
  have present: "\<exists>it \<in> set (inventory stocked_state). item_id it = ''k2''"
    by (simp add: stocked_state_def widget_def gadget_def)
  from updateItemQuantity_frame[OF present, of "- 1" None]
  obtain i where fields: "map (\<lambda>it. (item_id it, name it, item_image it, createdAt it))
         (inventory (snd (updateItemQuantity ''k2'' (- 1) None stocked_state))) =
       map (\<lambda>it. (item_id it, name it, item_image it, createdAt it)) (inventory stocked_state)"
    and i: "i < length (inventory stocked_state)" "item_id (inventory stocked_state ! i) = ''k2''"
    and others: "\<forall>j < length (inventory stocked_state). j \<noteq> i \<longrightarrow>
           inventory (snd (updateItemQuantity ''k2'' (- 1) None stocked_state)) ! j =
           inventory stocked_state ! j"
    by blast
  from i have "i = 1"
    by (cases i) (auto simp: stocked_state_def widget_def gadget_def)
  with others have "inventory (snd (updateItemQuantity ''k2'' (- 1) None stocked_state)) ! 0 = widget"
    by (simp add: stocked_state_def)
  moreover have "map item_id (inventory (snd (updateItemQuantity ''k2'' (- 1) None stocked_state))) =
      map fst (map (\<lambda>it. (item_id it, name it, item_image it, createdAt it))
         (inventory (snd (updateItemQuantity ''k2'' (- 1) None stocked_state))))"
    by (simp add: comp_def)
  ultimately show ?thesis
    unfolding fields by (simp add: stocked_state_def widget_def gadget_def)
qed

section \<open>Capacity monitor\<close>

lemma foldl_used:
  "foldl (\<lambda>used (key, value). used + (length key + length value) * 2) acc entries =
   acc + 2 * (\<Sum>(key, value) \<leftarrow> entries. length key + length value)"
  by (induction entries arbitrary: acc) (auto simp: algebra_simps)

text \<open>
  Claim C6, as it is written, at a browser that holds the entry \<open>theme\<close> but whose
  storage was found unavailable: the quota reported is 0, not 5 MiB, and the bytes used
  are reported as 0, not as twice the nine characters kept.
\<close>

theorem getStorageInfo_quota_counterexample:
  "localStorage blocked_state = [(''theme'', ''dark'')] \<and>
   quota (getStorageInfo blocked_state) \<noteq> 5 * 1024 * 1024 \<and>
   used (getStorageInfo blocked_state) \<noteq> (length ''theme'' + length ''dark'') * 2"
  by (simp add: getStorageInfo_def blocked_state_def)

text \<open>
  Claim C6, amended: when storage is available, \<open>getStorageInfo\<close> reports as used
  twice the sum, over every persisted entry, of the length of its key and of its value,
  as quota the fixed 5 MiB (the same for every state), and as percentage used / quota *
  100; when storage is unavailable it reports 0 for all three.
\<close>

theorem getStorageInfo_accounting:
  "(storageAvailable s \<longrightarrow>
      used (getStorageInfo s) =
        2 * (\<Sum>(key, value) \<leftarrow> localStorage s. length key + length value) \<and>
      quota (getStorageInfo s) = 5 * 1024 * 1024 \<and>
      percentage (getStorageInfo s) =
        of_nat (used (getStorageInfo s)) / of_nat (quota (getStorageInfo s)) * 100) \<and>
   (\<not> storageAvailable s \<longrightarrow>
      getStorageInfo s = \<lparr>used = 0, quota = 0, percentage = 0\<rparr>)"
  unfolding getStorageInfo_def Let_def foldl_used MAX_LOCALSTORAGE_SIZE_def by simp

text \<open>
  Claim C6, amended, on 4.5 MiB of entries in an available store (90 percent of the
  quota) and on the unavailable store.
\<close>

theorem getStorageInfo_accounting_witness:
  "used (getStorageInfo nearly_full_state) = 4718592 \<and>
   quota (getStorageInfo nearly_full_state) = 5242880 \<and>
   percentage (getStorageInfo nearly_full_state) = 90 \<and>
   getStorageInfo blocked_state = \<lparr>used = 0, quota = 0, percentage = 0\<rparr>"
proof -
  have a: "storageAvailable nearly_full_state" by (simp add: nearly_full_state_def)
  have b: "\<not> storageAvailable blocked_state" by (simp add: blocked_state_def)
  have u: "used (getStorageInfo nearly_full_state) = 4718592"
    using getStorageInfo_accounting[of nearly_full_state] a by (simp add: nearly_full_state_def)
  moreover have q: "quota (getStorageInfo nearly_full_state) = 5242880"
    using getStorageInfo_accounting[of nearly_full_state] a by simp
  moreover have "percentage (getStorageInfo nearly_full_state) = 90"
    using getStorageInfo_accounting[of nearly_full_state] a unfolding u q by simp
  moreover have "getStorageInfo blocked_state = \<lparr>used = 0, quota = 0, percentage = 0\<rparr>"
    using getStorageInfo_accounting[of blocked_state] b by blast
  ultimately show ?thesis by simp
qed

lemma updateStorageInfo_warns:
  assumes "percentage (getStorageInfo s) > 85"
  shows "ui (updateStorageInfo s) =
     ui s @ [StorageInfoShown (getStorageInfo s)
               (if percentage (getStorageInfo s) > 90 then ''bg-red-600'' else ''bg-yellow-500''),
             low_storage_warning]"
proof -
  from assms have "storageAvailable s"
    by (auto simp: getStorageInfo_def split: if_splits)
  with assms show ?thesis
    by (simp add: updateStorageInfo_def Let_def showToast_def low_storage_warning_def)
qed

lemma getStorageInfo_updateStorageInfo: "getStorageInfo (updateStorageInfo s) = getStorageInfo s"
  by (simp add: getStorageInfo_def updateStorageInfo_frame)

lemma getStorageInfo_funpow: "getStorageInfo ((updateStorageInfo ^^ n) s) = getStorageInfo s"
  by (induction n) (simp_all add: getStorageInfo_updateStorageInfo)

text \<open>
  Claim C9: whenever the percentage that \<open>updateStorageInfo\<close> computes exceeds 85, the
  last thing the call does is to emit the warning toast; nothing dampens it, so \<open>n\<close>
  recomputations in a row add exactly \<open>n\<close> warnings.
\<close>

theorem updateStorageInfo_rewarns:
  assumes "percentage (getStorageInfo s) > 85"
  shows "last (ui (updateStorageInfo s)) = low_storage_warning \<and>
     count_list (ui ((updateStorageInfo ^^ n) s)) low_storage_warning =
       count_list (ui s) low_storage_warning + n"
proof
  show "last (ui (updateStorageInfo s)) = low_storage_warning"
    by (simp add: updateStorageInfo_warns[OF assms])
  show "count_list (ui ((updateStorageInfo ^^ n) s)) low_storage_warning =
       count_list (ui s) low_storage_warning + n"
  proof (induction n)
    case 0
    show ?case by simp
  next
    case (Suc n)
    have "percentage (getStorageInfo ((updateStorageInfo ^^ n) s)) > 85"
      using assms by (simp add: getStorageInfo_funpow)
    from updateStorageInfo_warns[OF this] Suc show ?case
      by (simp add: low_storage_warning_def)
  qed
qed

text \<open>
  Claim C9 on 4.5 MiB used of 5 MiB: the percentage is 90, and two recomputations warn
  twice.
\<close>

theorem updateStorageInfo_rewarns_witness:
  "percentage (getStorageInfo nearly_full_state) = 90 \<and>
   count_list (ui (updateStorageInfo (updateStorageInfo nearly_full_state)))
     low_storage_warning = 2"
proof -
  have p: "percentage (getStorageInfo nearly_full_state) = 90"
    by (simp add: getStorageInfo_def nearly_full_state_def MAX_LOCALSTORAGE_SIZE_def)
  then have h: "percentage (getStorageInfo nearly_full_state) > 85" by simp
  have "count_list (ui nearly_full_state) low_storage_warning = 0"
    by (simp add: nearly_full_state_def)
  with updateStorageInfo_rewarns[OF h, of 2] p show ?thesis
    by (simp add: numeral_2_eq_2)
qed

section \<open>Durable store\<close>

lemma saveInventory_try_fails_iff: "saveInventory_try write_fault s = Inl e \<longleftrightarrow> write_fault = Some e"
  by (cases write_fault) (simp_all add: saveInventory_try_def setItem_def)

lemma apply_action_inventory_fault:
  "inventory (apply_action (act, write_fault) s) = inventory (apply_action (act, None) s)"
  by (cases act)
     (simp_all add: addItemForm_submit_inventory updateItemQuantity_inventory deleteItem_inventory)

text \<open>
  Claim C7: when storage is available and the write of \<open>saveInventory\<close> throws the
  error \<open>e\<close>, the call still ends in a state, which differs from the one before only by
  the report: a console line and the status \<open>Storage quota exceeded\<close> with an error
  toast when \<open>e\<close> is named \<open>QuotaExceededError\<close> or has code 22, the status
  \<open>Error saving data\<close> otherwise. The collection and the persisted entries are as
  before the call, and the collection a mutation leaves is the same whether its save
  fails or not: nothing is rolled back.
\<close>

theorem saveInventory_failure:
  assumes "storageAvailable s" and "saveInventory_try write_fault s = Inl e"
  shows "saveInventory write_fault s =
       s\<lparr>ui := ui s @
          (if err_name e = ''QuotaExceededError'' \<or> err_code e = Some 22 then
             [ConsoleError ''Error saving to storage:'' (err_message e),
              StorageStatus False (Some ''Storage quota exceeded''),
              Toast ''Storage quota exceeded. Try removing some items or images.'' ''error'']
           else
             [ConsoleError ''Error saving to storage:'' (err_message e),
              StorageStatus False (Some ''Error saving data'')])\<rparr> \<and>
     inventory (saveInventory write_fault s) = inventory s \<and>
     localStorage (saveInventory write_fault s) = localStorage s \<and>
     inventory (apply_action (act, write_fault) s) = inventory (apply_action (act, None) s)"
proof (intro conjI)
  show "saveInventory write_fault s =
       s\<lparr>ui := ui s @
          (if err_name e = ''QuotaExceededError'' \<or> err_code e = Some 22 then
             [ConsoleError ''Error saving to storage:'' (err_message e),
              StorageStatus False (Some ''Storage quota exceeded''),
              Toast ''Storage quota exceeded. Try removing some items or images.'' ''error'']
           else
             [ConsoleError ''Error saving to storage:'' (err_message e),
              StorageStatus False (Some ''Error saving data'')])\<rparr>"
    using assms
    by (simp add: saveInventory_def showToast_def showStorageStatus_def console_error_def Let_def)
  then show "inventory (saveInventory write_fault s) = inventory s"
    and "localStorage (saveInventory write_fault s) = localStorage s"
    by simp_all
  show "inventory (apply_action (act, write_fault) s) = inventory (apply_action (act, None) s)"
    by (rule apply_action_inventory_fault)
qed

text \<open>
  Claim C7 on the widget and the gadget: a write refused for quota and a write refused
  for another reason are reported as such, and an increment whose save fails stays.
\<close>

theorem saveInventory_failure_witness:
  "ui (saveInventory (Some quota_error) stocked_state) =
     [ConsoleError ''Error saving to storage:'' ''The quota has been exceeded.'',
      StorageStatus False (Some ''Storage quota exceeded''),
      Toast ''Storage quota exceeded. Try removing some items or images.'' ''error''] \<and>
   ui (saveInventory (Some security_error) stocked_state) =
     [ConsoleError ''Error saving to storage:'' ''The operation is insecure.'',
      StorageStatus False (Some ''Error saving data'')] \<and>
   inventory (saveInventory (Some quota_error) stocked_state) = [widget, gadget] \<and>
   inventory (apply_action (AdjustQuantity ''k1'' 1, Some quota_error) stocked_state) =
     [widget\<lparr>quantity := 6\<rparr>, gadget]"
proof -
  have a: "storageAvailable stocked_state" by (simp add: stocked_state_def)
  have t1: "saveInventory_try (Some quota_error) stocked_state = Inl quota_error"
    by (simp add: saveInventory_try_def setItem_def)
  have t2: "saveInventory_try (Some security_error) stocked_state = Inl security_error"
    by (simp add: saveInventory_try_def setItem_def)
  have ok: "inventory (apply_action (AdjustQuantity ''k1'' 1, None) stocked_state) =
      [widget\<lparr>quantity := 6\<rparr>, gadget]"
    by (simp add: updateItemQuantity_inventory stocked_state_def widget_def gadget_def)
  from saveInventory_failure[OF a t1, of "AdjustQuantity ''k1'' 1"]
       saveInventory_failure[OF a t2, of "AdjustQuantity ''k1'' 1"] ok
  show ?thesis
    by (simp add: quota_error_def security_error_def stocked_state_def)
qed

section \<open>Import\<close>

text \<open>
  Claim C8: when the imported file parses to a JSON value that is not an array, the
  handler changes nothing but the log, to which it adds the console line and the error
  toast \<open>Error importing inventory data: Invalid inventory data format\<close>: no
  confirmation is asked, and the collection and the persisted entries are as before.
\<close>

theorem importInventory_non_array:
  assumes "\<not> Array_isArray importedData"
  shows "importInventory_onload (Inr importedData) s =
       s\<lparr>ui := ui s @
          [ConsoleError ''Import error:'' ''Invalid inventory data format'',
           Toast ''Error importing inventory data: Invalid inventory data format'' ''error'']\<rparr> \<and>
     inventory (importInventory_onload (Inr importedData) s) = inventory s \<and>
     localStorage (importInventory_onload (Inr importedData) s) = localStorage s"
  using assms
  by (simp add: importInventory_onload_def importInventory_try_def showToast_def
      console_error_def)

text \<open>Claim C8 on a file that holds an object with an \<open>items\<close> field instead of an array.\<close>

theorem importInventory_non_array_witness:
  "ui (importInventory_onload (Inr (JObject [(''items'', JArray [])])) stocked_state) =
     [ConsoleError ''Import error:'' ''Invalid inventory data format'',
      Toast ''Error importing inventory data: Invalid inventory data format'' ''error''] \<and>
   inventory (importInventory_onload (Inr (JObject [(''items'', JArray [])])) stocked_state) =
     [widget, gadget] \<and>
   localStorage (importInventory_onload (Inr (JObject [(''items'', JArray [])])) stocked_state) = []"
proof -
  have "\<not> Array_isArray (JObject [(''items'', JArray [])])" by simp
  from importInventory_non_array[OF this, of stocked_state] show ?thesis
    by (simp add: stocked_state_def)
qed

end
